theory Spec2Isabelle
  imports Complex_Main
begin

section \<open>Python primitives used by the scanners\<close>

text \<open>
  Python strings are modelled as \<open>string\<close>; a \<open>char\<close> stands for a code point
  below 256. Python integers are \<open>int\<close>. An exception is a value of \<open>error\<close>; a
  computation that may also run forever returns an \<open>option\<close> whose \<open>None\<close> means
  "does not return".
\<close>

datatype error = ValueError | TypeError | KeyError | SystemExit

text \<open>\<open>str.lower()\<close> on code points below 256.\<close>

definition lower_char :: "char \<Rightarrow> char" where
  "lower_char c =
     (let n = (of_char c :: nat)
      in if (65 \<le> n \<and> n \<le> 90) \<or> (192 \<le> n \<and> n \<le> 222 \<and> n \<noteq> 215)
         then char_of (n + 32) else c)"

definition lower :: "string \<Rightarrow> string" where
  "lower s = map lower_char s"

text \<open>\<open>str.isspace()\<close> of one character and \<open>str.strip()\<close>.\<close>

definition is_space :: "char \<Rightarrow> bool" where
  "is_space c =
     (let n = (of_char c :: nat)
      in (9 \<le> n \<and> n \<le> 13) \<or> (28 \<le> n \<and> n \<le> 32) \<or> n = 133 \<or> n = 160)"

definition strip :: "string \<Rightarrow> string" where
  "strip s = rev (dropWhile is_space (rev (dropWhile is_space s)))"

text \<open>
  A slice \<open>s[lo:hi]\<close>: a negative bound counts from the end, and every bound is
  clamped into \<open>0..len(s)\<close>, so that a slice never reads out of range.
\<close>

definition slice_bound :: "int \<Rightarrow> nat \<Rightarrow> nat" where
  "slice_bound k n =
     (if k < 0 then (if k + int n < 0 then 0 else nat (k + int n))
      else (if int n < k then n else nat k))"

definition slice :: "string \<Rightarrow> int \<Rightarrow> int \<Rightarrow> string" where
  "slice s lo hi =
     (let a = slice_bound lo (length s); b = slice_bound hi (length s)
      in take (b - a) (drop a s))"

text \<open>\<open>s.startswith(p)\<close> and the substring test \<open>sub in s\<close>.\<close>

definition startswith :: "string \<Rightarrow> string \<Rightarrow> bool" where
  "startswith s p = (take (length p) s = p)"

fun contains :: "string \<Rightarrow> string \<Rightarrow> bool" where
  "contains [] sub = (sub = [])"
| "contains (c # cs) sub = (startswith (c # cs) sub \<or> contains cs sub)"

text \<open>The comparison \<open>a <= b\<close> of two strings: lexicographic on code points.\<close>

fun str_le :: "string \<Rightarrow> string \<Rightarrow> bool" where
  "str_le [] b = True"
| "str_le (x # xs) [] = False"
| "str_le (x # xs) (y # ys) =
     (if x = y then str_le xs ys else (of_char x :: nat) < of_char y)"

text \<open>
  \<open>int(s, 16)\<close>: surrounding whitespace is dropped, then an optional sign, an
  optional \<open>0x\<close> prefix (one underscore may follow it) and hexadecimal digits, single
  underscores allowed between two digits. Anything else raises ValueError (\<open>None\<close>).
  The whitespace of \<open>int\<close> is tab to carriage return, the space, and the two
  spaces above 127; unlike \<open>str.strip()\<close> it keeps the separators
  \<open>0x1c\<close> to \<open>0x1f\<close>, which make \<open>int\<close> raise.
\<close>

definition int_space :: "char \<Rightarrow> bool" where
  "int_space c =
     (let n = (of_char c :: nat)
      in (9 \<le> n \<and> n \<le> 13) \<or> n = 32 \<or> n = 133 \<or> n = 160)"

definition int_strip :: "string \<Rightarrow> string" where
  "int_strip s = rev (dropWhile int_space (rev (dropWhile int_space s)))"

definition hex_val :: "char \<Rightarrow> int option" where
  "hex_val c =
     (let n = int (of_char c)
      in if 48 \<le> n \<and> n \<le> 57 then Some (n - 48)
         else if 97 \<le> n \<and> n \<le> 102 then Some (n - 87)
         else if 65 \<le> n \<and> n \<le> 70 then Some (n - 55)
         else None)"

fun hex_digits :: "string \<Rightarrow> int \<Rightarrow> int option" where
  "hex_digits [] acc = Some acc"
| "hex_digits (c # cs) acc =
     (if c = CHR ''_'' then
        (case cs of
           [] \<Rightarrow> None
         | d # ds \<Rightarrow>
             (case hex_val d of None \<Rightarrow> None | Some v \<Rightarrow> hex_digits ds (acc * 16 + v)))
      else
        (case hex_val c of None \<Rightarrow> None | Some v \<Rightarrow> hex_digits cs (acc * 16 + v)))"

definition hex_number :: "string \<Rightarrow> int option" where
  "hex_number s =
     (case s of
        [] \<Rightarrow> None
      | d # ds \<Rightarrow> (case hex_val d of None \<Rightarrow> None | Some v \<Rightarrow> hex_digits ds v))"

definition drop_prefix16 :: "string \<Rightarrow> string" where
  "drop_prefix16 s =
     (if startswith s ''0x'' \<or> startswith s ''0X'' then
        (let r = drop 2 s in if startswith r ''_'' then drop 1 r else r)
      else s)"

definition int16 :: "string \<Rightarrow> int option" where
  "int16 s =
     (let t = int_strip s
      in if startswith t ''-'' then map_option uminus (hex_number (drop_prefix16 (drop 1 t)))
         else if startswith t ''+'' then hex_number (drop_prefix16 (drop 1 t))
         else hex_number (drop_prefix16 t))"

text \<open>
  A value that may be absent, with its default: \<open>d.get(key, default)\<close>, and
  \<open>x or default\<close> for an option that was not given.
\<close>

definition get_or :: "'a option \<Rightarrow> 'a \<Rightarrow> 'a" where
  "get_or v dflt = (case v of None \<Rightarrow> dflt | Some x \<Rightarrow> x)"

section \<open>The opcode walk\<close>

text \<open>
  The inner \<open>while\<close> loop of \<open>scan_bytecode\<close>, the same in
  \<open>scripts/contract_scanner.py\<close> and \<open>scripts/safeguard_scan.py\<close>:
  \<^verbatim>\<open>
    while i < len(code):
        byte = code[i:i+2].lower()
        if byte == opcode: count += 1
        if byte >= "60" and byte <= "7f":
            push_size = int(byte, 16) - 0x5f
            i += 2 + push_size * 2
        else:
            i += 2
  \<close>
  The result is \<open>None\<close> when the loop never ends, \<open>Some (Inl ValueError)\<close> when
  \<open>int\<close> raises, and \<open>Some (Inr count)\<close> when the loop ends.
\<close>

partial_function (option) opcode_walk ::
  "string \<Rightarrow> string \<Rightarrow> int \<Rightarrow> int \<Rightarrow> (error + int) option" where
  "opcode_walk code opcode i count =
     (if i < int (length code) then
        (let byte = lower (slice code i (i + 2));
             count' = (if byte = opcode then count + 1 else count)
         in if str_le ''60'' byte \<and> str_le byte ''7f'' then
              (case int16 byte of
                 None \<Rightarrow> Some (Inl ValueError)
               | Some v \<Rightarrow> opcode_walk code opcode (i + 2 + (v - 0x5f) * 2) count')
            else opcode_walk code opcode (i + 2) count')
      else Some (Inr count))"

declare opcode_walk.simps [code]

section \<open>scripts/contract\_scanner.py\<close>

datatype severity = CRITICAL | HIGH | MEDIUM | LOW

datatype decision = APPROVE | REVIEW | DENY

text \<open>
  The tables \<open>PATTERNS\<close> and \<open>SUSPICIOUS_SELECTORS\<close> (a dict, read in insertion
  order). The em dash of the source's description texts is written \<open>--\<close>.
\<close>

record cs_pattern =
  cs_name :: string
  cs_opcode :: string
  cs_severity :: severity
  cs_description :: string

definition CS_PATTERNS :: "cs_pattern list" where
  "CS_PATTERNS =
     [\<lparr>cs_name = ''selfdestruct'', cs_opcode = ''ff'', cs_severity = CRITICAL,
        cs_description = ''Contract can self-destruct, draining all funds''\<rparr>,
      \<lparr>cs_name = ''delegatecall'', cs_opcode = ''f4'', cs_severity = HIGH,
        cs_description =
          ''Uses delegatecall -- can execute arbitrary code in contract context''\<rparr>,
      \<lparr>cs_name = ''callcode'', cs_opcode = ''f2'', cs_severity = HIGH,
        cs_description = ''Uses deprecated CALLCODE -- potential proxy attack vector''\<rparr>,
      \<lparr>cs_name = ''create2'', cs_opcode = ''f5'', cs_severity = MEDIUM,
        cs_description = ''Uses CREATE2 -- can deploy contracts at predictable addresses''\<rparr>,
      \<lparr>cs_name = ''tx.origin'', cs_opcode = ''32'', cs_severity = MEDIUM,
        cs_description = ''Uses tx.origin -- vulnerable to phishing attacks''\<rparr>]"

record selector_info =
  sel_name :: string
  sel_risk :: severity
  sel_note :: string

definition SUSPICIOUS_SELECTORS :: "(string \<times> selector_info) list" where
  "SUSPICIOUS_SELECTORS =
     [(''0xa9059cbb'', \<lparr>sel_name = ''transfer(address,uint256)'', sel_risk = LOW,
         sel_note = ''Standard ERC20 -- check context''\<rparr>),
      (''0x095ea7b3'', \<lparr>sel_name = ''approve(address,uint256)'', sel_risk = MEDIUM,
         sel_note = ''Approval -- check for unlimited approvals''\<rparr>),
      (''0x70a08231'', \<lparr>sel_name = ''balanceOf(address)'', sel_risk = LOW,
         sel_note = ''Read-only''\<rparr>),
      (''0x23b872dd'', \<lparr>sel_name = ''transferFrom(address,address,uint256)'',
         sel_risk = MEDIUM, sel_note = ''Requires prior approval''\<rparr>),
      (''0x42966c68'', \<lparr>sel_name = ''burn(uint256)'', sel_risk = HIGH,
         sel_note = ''Token burn -- irreversible''\<rparr>),
      (''0x715018a6'', \<lparr>sel_name = ''renounceOwnership()'', sel_risk = HIGH,
         sel_note = ''Ownership renounced -- no admin recovery''\<rparr>),
      (''0xf2fde38b'', \<lparr>sel_name = ''transferOwnership(address)'', sel_risk = HIGH,
         sel_note = ''Ownership transfer -- check recipient''\<rparr>)]"

text \<open>
  A finding is a dict; the key \<open>occurrences\<close> is absent from the empty-contract
  finding. A found selector is the table's info with the key \<open>selector\<close> added.
\<close>

record cs_finding =
  f_name :: string
  f_severity :: severity
  f_description :: string
  f_occurrences :: "int option"

record found_selector = selector_info +
  sel_selector :: string

record cs_report =
  bytecodeSize :: int
  riskScore :: int
  riskLevel :: decision
  findings :: "cs_finding list"
  knownSelectors :: "found_selector list"

text \<open>
  \<open>scan_bytecode\<close> returns a list on its early return and a dict at its end.
\<close>

datatype cs_result = FindingList "cs_finding list" | Report cs_report

text \<open>The loop \<open>for pattern in PATTERNS\<close>, appending to \<open>findings\<close>.\<close>

fun cs_scan_patterns ::
  "string \<Rightarrow> cs_pattern list \<Rightarrow> cs_finding list \<Rightarrow> (error + cs_finding list) option" where
  "cs_scan_patterns code [] fs = Some (Inr fs)"
| "cs_scan_patterns code (p # ps) fs =
     (case opcode_walk code (lower (cs_opcode p)) 0 0 of
        None \<Rightarrow> None
      | Some (Inl e) \<Rightarrow> Some (Inl e)
      | Some (Inr count) \<Rightarrow>
          cs_scan_patterns code ps
            (if count > 0 then
               fs @ [\<lparr>f_name = cs_name p, f_severity = cs_severity p,
                       f_description = cs_description p, f_occurrences = Some count\<rparr>]
             else fs))"

text \<open>The loop \<open>for selector, info in SUSPICIOUS_SELECTORS.items()\<close>.\<close>

fun cs_scan_selectors :: "string \<Rightarrow> (string \<times> selector_info) list \<Rightarrow> found_selector list" where
  "cs_scan_selectors code [] = []"
| "cs_scan_selectors code ((selector, info) # rest) =
     (let sel_hex = drop 2 selector
      in if contains code sel_hex
         then selector_info.extend info \<lparr>sel_selector = selector\<rparr> # cs_scan_selectors code rest
         else cs_scan_selectors code rest)"

fun severity_scores :: "severity \<Rightarrow> int" where
  "severity_scores CRITICAL = 40"
| "severity_scores HIGH = 20"
| "severity_scores MEDIUM = 10"
| "severity_scores LOW = 5"

definition cs_risk_score :: "cs_finding list \<Rightarrow> int" where
  "cs_risk_score fs =
     sum_list (map (\<lambda>f. severity_scores (f_severity f) *
                          (case f_occurrences f of None \<Rightarrow> 1 | Some n \<Rightarrow> n)) fs)"

definition cs_risk_level :: "int \<Rightarrow> decision" where
  "cs_risk_level risk_score =
     (if risk_score \<ge> 60 then DENY else if risk_score \<ge> 20 then REVIEW else APPROVE)"

definition strip_0x :: "string \<Rightarrow> string" where
  "strip_0x bytecode = (if startswith bytecode ''0x'' then drop 2 bytecode else bytecode)"

definition cs_scan_bytecode :: "string \<Rightarrow> (error + cs_result) option" where
  "cs_scan_bytecode bytecode =
     (let code = strip_0x bytecode
      in if length code < 2 then
           Some (Inr (FindingList
             [\<lparr>f_name = ''empty_contract'', f_severity = CRITICAL,
               f_description = ''Contract has no bytecode (EOA or destroyed)'',
               f_occurrences = None\<rparr>]))
         else
           (case cs_scan_patterns code CS_PATTERNS [] of
              None \<Rightarrow> None
            | Some (Inl e) \<Rightarrow> Some (Inl e)
            | Some (Inr fs) \<Rightarrow>
                (let selectors_found = cs_scan_selectors code SUSPICIOUS_SELECTORS;
                     risk_score = cs_risk_score fs;
                     risk_level = cs_risk_level risk_score
                 in Some (Inr (Report
                      \<lparr>bytecodeSize = int (length code) div 2, riskScore = risk_score,
                        riskLevel = risk_level, findings = fs,
                        knownSelectors = selectors_found\<rparr>)))))"

text \<open>
  \<open>main\<close> without its input and output: \<open>args\<close> holds the options
  \<open>--address\<close> and \<open>--bytecode\<close> (\<open>None\<close> when not given), \<open>fetched\<close> is what
  \<open>fetch_bytecode\<close> returns for the address, and the result is the dict that is
  printed. The assignments \<open>result["source"] = ...\<close> and \<open>result["address"] = ...\<close>
  raise TypeError when \<open>result\<close> is a list; \<open>sys.exit(1)\<close> is SystemExit.
\<close>

definition KNOWN_SAFE :: "(string \<times> string) list" where
  "KNOWN_SAFE =
     [(''0x036cbd53842c5426634e7929541ec2318f3dcf7e'', ''Circle USDC (Base Sepolia)''),
      (''0xa0b86991c6218b36c1d19d4a2e9eb0ce3606eb48'', ''Circle USDC (Ethereum Mainnet)''),
      (''0x833589fcd6edb6e08f4c7c32d4f71b54bda02913'', ''Circle USDC (Base Mainnet)''),
      (''0x3fc91a3afd70395cd496c647d5a6cc9d4b2b7fad'', ''Uniswap Universal Router'')]"

record cs_args =
  arg_address :: "string option"
  arg_bytecode :: "string option"

record known_safe =
  ks_address :: string
  ks_status :: string
  ks_identity :: string
  ks_riskLevel :: decision
  ks_riskScore :: int

datatype cs_main_result = Known known_safe | Scanned cs_report "string \<times> string"

definition cs_main :: "cs_args \<Rightarrow> string \<Rightarrow> (error + cs_main_result) option" where
  "cs_main args fetched =
     (let address = lower (get_or (arg_address args) [])
      in case map_of KNOWN_SAFE address of
           Some identity \<Rightarrow>
             Some (Inr (Known
               \<lparr>ks_address = address, ks_status = ''KNOWN_SAFE'', ks_identity = identity,
                 ks_riskLevel = APPROVE, ks_riskScore = 0\<rparr>))
         | None \<Rightarrow>
             if get_or (arg_bytecode args) [] \<noteq> [] then
               (case cs_scan_bytecode (get_or (arg_bytecode args) []) of
                  None \<Rightarrow> None
                | Some (Inl e) \<Rightarrow> Some (Inl e)
                | Some (Inr (FindingList fs)) \<Rightarrow> Some (Inl TypeError)
                | Some (Inr (Report r)) \<Rightarrow>
                    Some (Inr (Scanned r (''source'', ''bytecode_input''))))
             else if get_or (arg_address args) [] \<noteq> [] then
               (case cs_scan_bytecode fetched of
                  None \<Rightarrow> None
                | Some (Inl e) \<Rightarrow> Some (Inl e)
                | Some (Inr (FindingList fs)) \<Rightarrow> Some (Inl TypeError)
                | Some (Inr (Report r)) \<Rightarrow>
                    Some (Inr (Scanned r (''address'', get_or (arg_address args) []))))
             else Some (Inl SystemExit))"

section \<open>scripts/safeguard\_scan.py\<close>

record sg_pattern =
  sg_opcode :: string
  sg_name :: string
  sg_severity :: severity
  sg_score :: int
  sg_desc :: string

definition SG_PATTERNS :: "sg_pattern list" where
  "SG_PATTERNS =
     [\<lparr>sg_opcode = ''ff'', sg_name = ''selfdestruct'', sg_severity = CRITICAL, sg_score = 40,
        sg_desc = ''Can self-destruct, destroying contract and draining ETH balance''\<rparr>,
      \<lparr>sg_opcode = ''f4'', sg_name = ''delegatecall'', sg_severity = HIGH, sg_score = 20,
        sg_desc = ''Executes external code in this contract's storage context (proxy/upgrade risk)''\<rparr>,
      \<lparr>sg_opcode = ''f2'', sg_name = ''callcode'', sg_severity = HIGH, sg_score = 20,
        sg_desc = ''Deprecated CALLCODE -- potential proxy attack vector''\<rparr>,
      \<lparr>sg_opcode = ''f5'', sg_name = ''create2'', sg_severity = MEDIUM, sg_score = 10,
        sg_desc = ''CREATE2 -- deploys contracts at predictable addresses (metamorphic risk)''\<rparr>,
      \<lparr>sg_opcode = ''32'', sg_name = ''tx.origin'', sg_severity = MEDIUM, sg_score = 10,
        sg_desc = ''Uses tx.origin -- vulnerable to phishing/relay attacks''\<rparr>]"

definition SELECTORS :: "(string \<times> selector_info) list" where
  "SELECTORS =
     [(''095ea7b3'', \<lparr>sel_name = ''approve(address,uint256)'', sel_risk = MEDIUM,
         sel_note = ''Check for unlimited approvals (type(uint256).max)''\<rparr>),
      (''42966c68'', \<lparr>sel_name = ''burn(uint256)'', sel_risk = HIGH,
         sel_note = ''Token burn -- irreversible''\<rparr>),
      (''715018a6'', \<lparr>sel_name = ''renounceOwnership()'', sel_risk = HIGH,
         sel_note = ''Ownership renounced -- no admin recovery possible''\<rparr>),
      (''f2fde38b'', \<lparr>sel_name = ''transferOwnership(address)'', sel_risk = HIGH,
         sel_note = ''Ownership transfer -- verify recipient''\<rparr>),
      (''3659cfe6'', \<lparr>sel_name = ''upgradeTo(address)'', sel_risk = HIGH,
         sel_note = ''Proxy upgrade -- contract logic can change''\<rparr>),
      (''4f1ef286'', \<lparr>sel_name = ''upgradeToAndCall(address,bytes)'', sel_risk = HIGH,
         sel_note = ''Proxy upgrade + call -- logic change + execution''\<rparr>)]"

record sg_finding =
  g_name :: string
  g_severity :: severity
  g_desc :: string
  g_count :: int

text \<open>
  The result dict; the keys \<open>selectors\<close> and \<open>bytecode_size\<close> are absent from the
  early return.
\<close>

record sg_result =
  sg_findings :: "sg_finding list"
  sg_selectors :: "found_selector list option"
  risk_score :: int
  bytecode_size :: "int option"

text \<open>The loop \<open>for p in PATTERNS\<close>, with \<open>findings\<close> and \<open>total_score\<close>.\<close>

fun sg_scan_patterns ::
  "string \<Rightarrow> sg_pattern list \<Rightarrow> sg_finding list \<Rightarrow> int \<Rightarrow>
   (error + sg_finding list \<times> int) option" where
  "sg_scan_patterns code [] fs total_score = Some (Inr (fs, total_score))"
| "sg_scan_patterns code (p # ps) fs total_score =
     (case opcode_walk code (lower (sg_opcode p)) 0 0 of
        None \<Rightarrow> None
      | Some (Inl e) \<Rightarrow> Some (Inl e)
      | Some (Inr count) \<Rightarrow>
          (if count > 0 then
             sg_scan_patterns code ps
               (fs @ [\<lparr>g_name = sg_name p, g_severity = sg_severity p, g_desc = sg_desc p,
                       g_count = count\<rparr>])
               (total_score + sg_score p * count)
           else sg_scan_patterns code ps fs total_score))"

text \<open>The loop \<open>for sel, info in SELECTORS.items()\<close>, searching \<open>code.lower()\<close>.\<close>

fun sg_scan_selectors :: "string \<Rightarrow> (string \<times> selector_info) list \<Rightarrow> found_selector list" where
  "sg_scan_selectors code [] = []"
| "sg_scan_selectors code ((sel, info) # rest) =
     (if contains (lower code) sel
      then selector_info.extend info \<lparr>sel_selector = ''0x'' @ sel\<rparr> # sg_scan_selectors code rest
      else sg_scan_selectors code rest)"

definition sg_scan_bytecode :: "string \<Rightarrow> (error + sg_result) option" where
  "sg_scan_bytecode code_hex =
     (let code = strip_0x code_hex
      in if length code < 2 then
           Some (Inr \<lparr>sg_findings =
                        [\<lparr>g_name = ''empty_contract'', g_severity = CRITICAL,
                          g_desc = ''No bytecode (EOA or destroyed)'', g_count = 1\<rparr>],
                      sg_selectors = None, risk_score = 100, bytecode_size = None\<rparr>)
         else
           (case sg_scan_patterns code SG_PATTERNS [] 0 of
              None \<Rightarrow> None
            | Some (Inl e) \<Rightarrow> Some (Inl e)
            | Some (Inr (fs, total_score)) \<Rightarrow>
                Some (Inr \<lparr>sg_findings = fs,
                           sg_selectors = Some (sg_scan_selectors code SELECTORS),
                           risk_score = min total_score 100,
                           bytecode_size = Some (int (length code) div 2)\<rparr>)))"

text \<open>The verdict that \<open>scan_address\<close> derives from the score of \<open>scan_bytecode\<close>.\<close>

datatype risk_verdict = SAFE | LOW_RISK | MEDIUM_RISK | HIGH_RISK | BLOCK

definition scan_address_verdict :: "int \<Rightarrow> risk_verdict" where
  "scan_address_verdict score =
     (if score = 0 then SAFE
      else if score < 20 then LOW_RISK
      else if score < 40 then MEDIUM_RISK
      else if score < 60 then HIGH_RISK
      else BLOCK)"

section \<open>scripts/safeguard.py\<close>

text \<open>
  The verdicts \<open>"APPROVE"\<close>, \<open>"REVIEW"\<close>, \<open>"DENY"\<close> are the values of
  \<open>decision\<close>; \<open>order\<close> is the dict of \<open>max_decision\<close>.
\<close>

fun order :: "decision \<Rightarrow> nat" where
  "order APPROVE = 0"
| "order REVIEW = 1"
| "order DENY = 2"

definition max_decision :: "decision \<Rightarrow> decision \<Rightarrow> decision" where
  "max_decision a b = (if order a \<ge> order b then a else b)"

text \<open>
  A policy and a request are JSON objects of the expected shape: a key holds a string,
  a number, a boolean or a list of strings where the code reads one, and a key may be
  absent (\<open>None\<close>), in which case \<open>.get\<close> supplies its default. Amounts are the
  numbers that \<open>float\<close> returns, taken as reals.
\<close>

record lists =
  addresses :: "string list option"
  skill_authors :: "string list option"
  skill_sources :: "string list option"

record policy =
  allowlist :: "lists option"
  denylist :: "lists option"
  risky_permissions :: "string list option"
  block_new_skills :: "bool option"
  mainnet_allowed :: "bool option"
  mainnet_max_usdc :: "real option"
  max_single_usdc :: "real option"

record skill =
  sk_author :: "string option"
  sk_source :: "string option"
  sk_requested_permissions :: "string list option"

record payment =
  tx_chain :: "string option"
  tx_amount :: "real option"
  tx_to :: "string option"

text \<open>\<open>policy.get(outer, {}).get(key, [])\<close>.\<close>

definition get_list :: "lists option \<Rightarrow> (lists \<Rightarrow> string list option) \<Rightarrow> string list" where
  "get_list l key = (case l of None \<Rightarrow> [] | Some d \<Rightarrow> get_or (key d) [])"

text \<open>
  A reason is a text, except the one built by the f-string
  \<open>f"Risky permissions: {sorted(risky)}"\<close>, which is kept as the sorted list it prints.
\<close>

datatype reason = Text string | Risky_permissions "string list"

fun insert_sorted :: "string \<Rightarrow> string list \<Rightarrow> string list" where
  "insert_sorted x [] = [x]"
| "insert_sorted x (y # ys) = (if str_le x y then x # y # ys else y # insert_sorted x ys)"

definition sorted_strs :: "string list \<Rightarrow> string list" where
  "sorted_strs xs = foldr insert_sorted xs []"

definition eval_skill :: "skill \<Rightarrow> policy \<Rightarrow> decision \<times> reason list" where
  "eval_skill skill policy =
     (let allow_authors = set (get_list (allowlist policy) skill_authors);
          deny_authors = set (get_list (denylist policy) skill_authors);
          allow_sources = set (get_list (allowlist policy) skill_sources);
          deny_sources = set (get_list (denylist policy) skill_sources);
          author = strip (get_or (sk_author skill) []);
          source = strip (get_or (sk_source skill) [])
      in if author \<in> deny_authors \<or> source \<in> deny_sources then
           (DENY, [Text ''Denied author/source''])
         else
           (let (d, reasons) = (APPROVE, []);
                (d, reasons) =
                  (if author \<noteq> [] \<and> author \<notin> allow_authors \<and> allow_authors \<noteq> {}
                   then (REVIEW, reasons @ [Text ''Author not in allowlist''])
                   else (d, reasons));
                (d, reasons) =
                  (if source \<noteq> [] \<and> source \<notin> allow_sources \<and> allow_sources \<noteq> {}
                   then (max_decision d REVIEW, reasons @ [Text ''Source not in allowlist''])
                   else (d, reasons));
                risky = remdups (filter (\<lambda>x. x \<in> set (get_or (risky_permissions policy) []))
                                        (get_or (sk_requested_permissions skill) []));
                (d, reasons) =
                  (if risky \<noteq> []
                   then (max_decision d REVIEW, reasons @ [Risky_permissions (sorted_strs risky)])
                   else (d, reasons));
                (d, reasons) =
                  (if get_or (block_new_skills policy) False
                   then (max_decision d REVIEW, reasons @ [Text ''Block new skills enabled''])
                   else (d, reasons))
            in (d, if reasons = [] then [Text ''OK''] else reasons)))"

definition eval_payment :: "payment \<Rightarrow> policy \<Rightarrow> decision \<times> reason list" where
  "eval_payment tx policy =
     (let chain = lower (get_or (tx_chain tx) []);
          amount = get_or (tx_amount tx) 0;
          to_addr = lower (get_or (tx_to tx) []);
          deny_addrs = set (map lower (get_list (denylist policy) addresses));
          allow_addrs = set (map lower (get_list (allowlist policy) addresses))
      in if to_addr \<in> deny_addrs then (DENY, [Text ''Recipient denylisted''])
         else
           (let (d, reasons) = (APPROVE, []);
                (d, reasons) =
                  (if allow_addrs \<noteq> {} \<and> to_addr \<notin> allow_addrs
                   then (max_decision d REVIEW, reasons @ [Text ''Recipient not in allowlist''])
                   else (d, reasons))
            in if chain = ''mainnet'' \<and> \<not> get_or (mainnet_allowed policy) False then
                 (DENY, [Text ''Mainnet disabled''])
               else
                 (let (d, reasons) =
                        (if chain = ''mainnet'' \<and> amount > get_or (mainnet_max_usdc policy) 0
                         then (max_decision d REVIEW,
                               reasons @ [Text ''Exceeds mainnet threshold''])
                         else (d, reasons));
                      max_single = get_or (max_single_usdc policy) 0;
                      (d, reasons) =
                        (if max_single \<noteq> 0 \<and> amount > max_single
                         then (max_decision d REVIEW, reasons @ [Text ''Exceeds single-tx limit''])
                         else (d, reasons))
                  in (d, if reasons = [] then [Text ''OK''] else reasons))))"

section \<open>scripts/spendguard.py\<close>

text \<open>
  A transaction is a CSV row; \<open>tx["amount_usdc"]\<close> and \<open>tx["date"]\<close> raise KeyError
  when the column is absent. The row holds the values that \<open>float\<close> and
  \<open>parse_date\<close> return (a date is its day number). The dicts
  \<open>category_limits_usdc\<close> and \<open>daily_spend\<close> are association lists;
  \<open>daily_spend\<close> is a \<open>defaultdict(float)\<close>, where a date never spent on reads
  as 0. The sum \<open>daily_spend[date] + amount\<close> is a sum of floats, which rounds:
  \<open>float_add\<close> is that addition, a parameter of the model. Comparisons of floats
  are exact.
\<close>

record sp_tx =
  amount_usdc :: "real option"
  category :: "string option"
  recipient :: "string option"
  date :: "nat option"

record sp_policy =
  deny_recipients :: "string list option"
  sp_max_single_usdc :: "real option"
  category_limits_usdc :: "(string \<times> real) list option"
  daily_limit_usdc :: "real option"
  known_recipients :: "string list option"

definition evaluate_transaction ::
  "(real \<Rightarrow> real \<Rightarrow> real) \<Rightarrow> sp_tx \<Rightarrow> sp_policy \<Rightarrow> (nat \<times> real) list \<Rightarrow>
   error + decision \<times> string list" where
  "evaluate_transaction float_add tx policy daily_spend =
     (case amount_usdc tx of
        None \<Rightarrow> Inl KeyError
      | Some amount \<Rightarrow>
          (let cat = get_or (category tx) ''uncategorized'';
               rcp = get_or (recipient tx) ''unknown''
           in case date tx of
                None \<Rightarrow> Inl KeyError
              | Some day \<Rightarrow>
                  if rcp \<in> set (get_or (deny_recipients policy) []) then
                    Inr (DENY, [''recipient_on_deny_list''])
                  else
                    (let reasons = [];
                         reasons =
                           (case sp_max_single_usdc policy of
                              None \<Rightarrow> reasons
                            | Some max_single \<Rightarrow>
                                if amount > max_single then reasons @ [''over_single_limit'']
                                else reasons);
                         cat_limits = get_or (category_limits_usdc policy) [];
                         reasons =
                           (case map_of cat_limits cat of
                              None \<Rightarrow> reasons
                            | Some cat_limit \<Rightarrow>
                                if amount > cat_limit then reasons @ [''over_category_limit'']
                                else reasons);
                         reasons =
                           (case daily_limit_usdc policy of
                              None \<Rightarrow> reasons
                            | Some daily_limit \<Rightarrow>
                                if float_add (get_or (map_of daily_spend day) 0) amount
                                   > daily_limit
                                then reasons @ [''over_daily_limit'']
                                else reasons);
                         known = set (get_or (known_recipients policy) []);
                         reasons =
                           (if known \<noteq> {} \<and> rcp \<notin> known then reasons @ [''unknown_recipient'']
                            else reasons)
                     in if ''over_single_limit'' \<in> set reasons \<or> ''over_daily_limit'' \<in> set reasons
                        then Inr (REVIEW, reasons)
                        else if ''over_category_limit'' \<in> set reasons
                                \<or> ''unknown_recipient'' \<in> set reasons
                        then Inr (REVIEW, reasons)
                        else Inr (APPROVE, reasons))))"

section \<open>The verdict join\<close>

text \<open>
  Claim C8. The join \<open>max_decision\<close> on the verdicts APPROVE < REVIEW < DENY is
  commutative, associative and idempotent.
\<close>

theorem max_decision_join_laws:
  "max_decision a b = max_decision b a \<and>
   max_decision a (max_decision b c) = max_decision (max_decision a b) c \<and>
   max_decision a a = a"
  by (cases a; cases b; cases c) (simp_all add: max_decision_def)

section \<open>The bytecode scanners on concrete inputs\<close>

lemma cs_scan_6000f46000ff:
  "cs_scan_bytecode ''0x6000f46000ff'' =
     Some (Inr (Report
       \<lparr>bytecodeSize = 6, riskScore = 60, riskLevel = DENY,
         findings =
           [\<lparr>f_name = ''selfdestruct'', f_severity = CRITICAL,
              f_description = ''Contract can self-destruct, draining all funds'',
              f_occurrences = Some 1\<rparr>,
            \<lparr>f_name = ''delegatecall'', f_severity = HIGH,
              f_description =
                ''Uses delegatecall -- can execute arbitrary code in contract context'',
              f_occurrences = Some 1\<rparr>],
         knownSelectors = []\<rparr>))"
  by code_simp

lemma sg_scan_6000f46000ff:
  "sg_scan_bytecode ''0x6000f46000ff'' =
     Some (Inr
       \<lparr>sg_findings =
          [\<lparr>g_name = ''selfdestruct'', g_severity = CRITICAL,
             g_desc = ''Can self-destruct, destroying contract and draining ETH balance'',
             g_count = 1\<rparr>,
           \<lparr>g_name = ''delegatecall'', g_severity = HIGH,
             g_desc =
               ''Executes external code in this contract's storage context (proxy/upgrade risk)'',
             g_count = 1\<rparr>],
        sg_selectors = Some [], risk_score = 60, bytecode_size = Some 6\<rparr>)"
  by code_simp

lemma cs_scan_60ff00:
  "cs_scan_bytecode ''0x60ff00'' =
     Some (Inr (Report
       \<lparr>bytecodeSize = 3, riskScore = 0, riskLevel = APPROVE, findings = [],
         knownSelectors = []\<rparr>))"
  by code_simp

lemma sg_scan_60ff00:
  "sg_scan_bytecode ''0x60ff00'' =
     Some (Inr
       \<lparr>sg_findings = [], sg_selectors = Some [], risk_score = 0, bytecode_size = Some 3\<rparr>)"
  by code_simp

text \<open>
  Claim C2. On \<open>0x6000f46000ff\<close> both scanners report one selfdestruct finding and
  one delegatecall finding, each counted once, and nothing else: the two PUSH1 immediates
  are not matched. On \<open>0x60ff00\<close> they report no finding: the \<open>ff\<close> byte is the
  immediate of PUSH1.
\<close>

theorem scan_bytecode_skips_push_data:
  "cs_scan_bytecode ''0x6000f46000ff'' =
     Some (Inr (Report
       \<lparr>bytecodeSize = 6, riskScore = 60, riskLevel = DENY,
         findings =
           [\<lparr>f_name = ''selfdestruct'', f_severity = CRITICAL,
              f_description = ''Contract can self-destruct, draining all funds'',
              f_occurrences = Some 1\<rparr>,
            \<lparr>f_name = ''delegatecall'', f_severity = HIGH,
              f_description =
                ''Uses delegatecall -- can execute arbitrary code in contract context'',
              f_occurrences = Some 1\<rparr>],
         knownSelectors = []\<rparr>)) \<and>
   sg_scan_bytecode ''0x6000f46000ff'' =
     Some (Inr
       \<lparr>sg_findings =
          [\<lparr>g_name = ''selfdestruct'', g_severity = CRITICAL,
             g_desc = ''Can self-destruct, destroying contract and draining ETH balance'',
             g_count = 1\<rparr>,
           \<lparr>g_name = ''delegatecall'', g_severity = HIGH,
             g_desc =
               ''Executes external code in this contract's storage context (proxy/upgrade risk)'',
             g_count = 1\<rparr>],
        sg_selectors = Some [], risk_score = 60, bytecode_size = Some 6\<rparr>) \<and>
   cs_scan_bytecode ''0x60ff00'' =
     Some (Inr (Report
       \<lparr>bytecodeSize = 3, riskScore = 0, riskLevel = APPROVE, findings = [],
         knownSelectors = []\<rparr>)) \<and>
   sg_scan_bytecode ''0x60ff00'' =
     Some (Inr
       \<lparr>sg_findings = [], sg_selectors = Some [], risk_score = 0, bytecode_size = Some 3\<rparr>)"
  by (intro conjI) (rule cs_scan_6000f46000ff sg_scan_6000f46000ff cs_scan_60ff00 sg_scan_60ff00)+

section \<open>The opcode walk on well-formed bytecode\<close>

text \<open>
  On a body of even length made of hexadecimal digits every slice is a full byte, a PUSH
  byte has a value from \<open>0x60\<close> on, and the cursor only moves forward: the walk ends
  and both \<open>scan_bytecode\<close> functions return a result.
\<close>

lemma hex_val_bounds: "hex_val ch = Some x \<Longrightarrow> 0 \<le> x \<and> x \<le> 15"
  by (auto simp: hex_val_def Let_def split: if_splits)

lemma hex_val_lower: "hex_val ch = Some x \<Longrightarrow> hex_val (lower_char ch) = Some x"
  by (auto simp: hex_val_def lower_char_def Let_def split: if_splits)

lemma hex_not_space: "hex_val ch = Some x \<Longrightarrow> \<not> int_space ch"
  by (auto simp: hex_val_def int_space_def Let_def split: if_splits)

lemma int16_pair:
  assumes "hex_val a = Some x" and "hex_val b = Some y"
  shows "int16 [a, b] = Some (x * 16 + y)"
proof -
  have sp: "int_strip [a, b] = [a, b]"
    using assms by (simp add: int_strip_def hex_not_space)
  have na: "a \<noteq> CHR ''-''" "a \<noteq> CHR ''+''" and nb: "b \<noteq> CHR ''x''" "b \<noteq> CHR ''X''" "b \<noteq> CHR ''_''"
    using assms by (auto simp: hex_val_def)
  show ?thesis
    using assms na nb
    by (simp add: int16_def sp startswith_def drop_prefix16_def hex_number_def Let_def)
qed

lemma str_le_60: "hex_val a = Some x \<Longrightarrow> str_le ''60'' [a, b] \<Longrightarrow> 6 \<le> x"
  by (auto simp: hex_val_def Let_def split: if_splits)

lemma slice_pair:
  assumes "0 \<le> i" and "i + 2 \<le> int (length s)"
  shows "slice s i (i + 2) = [s ! nat i, s ! Suc (nat i)]"
proof -
  have a: "slice_bound i (length s) = nat i" and b: "slice_bound (i + 2) (length s) = nat i + 2"
    using assms by (auto simp: slice_bound_def)
  have "take 2 (drop (nat i) s) = [s ! nat i, s ! Suc (nat i)]"
    using assms by (simp add: numeral_2_eq_2 take_Suc_conv_app_nth)
  then show ?thesis
    by (simp add: slice_def a b Let_def)
qed

lemma opcode_walk_terminates:
  assumes ev: "even (length code)" and hex: "\<forall>ch\<in>set code. hex_val ch \<noteq> None"
  shows "even i \<Longrightarrow> 0 \<le> i \<Longrightarrow> \<exists>n. opcode_walk code opc i c = Some (Inr n)"
proof (induction "nat (int (length code) - i)" arbitrary: i c rule: less_induct)
  case less
  show ?case
  proof (cases "i < int (length code)")
    case False
    then show ?thesis
      by (subst opcode_walk.simps) simp
  next
    case True
    with less.prems ev have le: "i + 2 \<le> int (length code)"
      by presburger
    define a where "a = lower_char (code ! nat i)"
    define b where "b = lower_char (code ! Suc (nat i))"
    have byte: "lower (slice code i (i + 2)) = [a, b]"
      using less.prems le by (simp add: slice_pair lower_def a_def b_def)
    have "code ! nat i \<in> set code" and "code ! Suc (nat i) \<in> set code"
      using less.prems le by (auto intro!: nth_mem)
    with hex obtain x y where x: "hex_val a = Some x" and y: "hex_val b = Some y"
      unfolding a_def b_def by (metis hex_val_lower not_None_eq)
    let ?c = "if [a, b] = opc then c + 1 else c"
    show ?thesis
    proof (cases "str_le ''60'' [a, b] \<and> str_le [a, b] ''7f''")
      case push: True
      let ?j = "i + 2 + (x * 16 + y - 95) * 2"
      from push have "6 \<le> x"
        using str_le_60[OF x] by blast
      moreover from y have "0 \<le> y"
        by (simp add: hex_val_bounds)
      ultimately have "i < ?j"
        by simp
      with less.prems have "nat (int (length code) - ?j) < nat (int (length code) - i)"
        and "even ?j" and "0 \<le> ?j"
        using True by simp_all
      from less.hyps[OF this] obtain n where "opcode_walk code opc ?j ?c = Some (Inr n)"
        by blast
      with True push byte show ?thesis
        by (subst opcode_walk.simps) (simp add: Let_def int16_pair[OF x y] del: str_le.simps)
    next
      case no_push: False
      have "nat (int (length code) - (i + 2)) < nat (int (length code) - i)"
        and "even (i + 2)" and "0 \<le> i + 2"
        using True less.prems by simp_all
      from less.hyps[OF this] obtain n where "opcode_walk code opc (i + 2) ?c = Some (Inr n)"
        by blast
      with True no_push byte show ?thesis
        by (subst opcode_walk.simps) (auto simp: Let_def simp del: str_le.simps)
    qed
  qed
qed

lemma cs_scan_patterns_returns:
  assumes "even (length code)" and "\<forall>ch\<in>set code. hex_val ch \<noteq> None"
  shows "\<exists>r. cs_scan_patterns code ps fs = Some (Inr r)"
proof (induction ps arbitrary: fs)
  case Nil
  show ?case by simp
next
  case (Cons p ps)
  from opcode_walk_terminates[OF assms, of 0 "lower (cs_opcode p)" 0]
  obtain n where "opcode_walk code (lower (cs_opcode p)) 0 0 = Some (Inr n)"
    by auto
  with Cons show ?case
    by simp
qed

lemma sg_scan_patterns_returns:
  assumes "even (length code)" and "\<forall>ch\<in>set code. hex_val ch \<noteq> None"
  shows "\<exists>r. sg_scan_patterns code ps fs t = Some (Inr r)"
proof (induction ps arbitrary: fs t)
  case Nil
  show ?case by simp
next
  case (Cons p ps)
  from opcode_walk_terminates[OF assms, of 0 "lower (sg_opcode p)" 0]
  obtain n where "opcode_walk code (lower (sg_opcode p)) 0 0 = Some (Inr n)"
    by auto
  with Cons show ?case
    by simp
qed

lemma scan_bytecode_returns_on_hex:
  assumes "even (length (strip_0x h))" and "\<forall>ch\<in>set (strip_0x h). hex_val ch \<noteq> None"
  shows "\<exists>r. cs_scan_bytecode h = Some (Inr r)" and "\<exists>r. sg_scan_bytecode h = Some (Inr r)"
proof -
  from cs_scan_patterns_returns[OF assms, of CS_PATTERNS "[]"]
  show "\<exists>r. cs_scan_bytecode h = Some (Inr r)"
    by (auto simp: cs_scan_bytecode_def Let_def)
  from sg_scan_patterns_returns[OF assms, of SG_PATTERNS "[]" 0]
  show "\<exists>r. sg_scan_bytecode h = Some (Inr r)"
    by (auto simp: sg_scan_bytecode_def Let_def)
qed

section \<open>The body 007\<close>

text \<open>
  On the body \<open>007\<close> the last slice is the one character \<open>7\<close>. It lies between
  \<open>"60"\<close> and \<open>"7f"\<close>, \<open>int("7", 16)\<close> is 7 and the push size is \<open>7 - 0x5f = -88\<close>,
  so the cursor moves from 2 back to \<open>-172\<close>. From there every slice is empty or
  \<open>0\<close> until the cursor is 0 again: the cursor stays among the even numbers from
  \<open>-172\<close> to 2 and the loop never ends.
\<close>

lemma slice_007_far: "i \<le> -6 \<Longrightarrow> slice ''007'' i (i + 2) = []"
  by (simp add: slice_def slice_bound_def)

lemma walk_007_cycle:
  assumes "opcode_walk code opc i c = Some y"
  shows "\<not> (code = ''007'' \<and> even i \<and> -172 \<le> i \<and> i \<le> 2)"
proof (rule opcode_walk.raw_induct
    [where P = "\<lambda>code opc i c y. \<not> (code = ''007'' \<and> even i \<and> -172 \<le> i \<and> i \<le> 2)",
      OF _ assms], goal_cases)
  case (1 walk code opc i c y)
  note IH = 1(1) and eq = 1(2)
  show ?case
  proof
    assume "code = ''007'' \<and> even i \<and> -172 \<le> i \<and> i \<le> 2"
    then have code: "code = ''007''" and ev: "even i" and lo: "-172 \<le> i" and hi: "i \<le> 2"
      by simp_all
    have "i = 2 \<or> i = 0 \<or> i = -2 \<or> i = -4 \<or> i \<le> -6"
      using ev hi by presburger
    then consider "i = 2" | "i = 0" | "i = -2" | "i = -4" | "i \<le> -6"
      by blast
    then show False
    proof cases
      case 1
      have "walk ''007'' opc (-172) (if ''7'' = opc then c + 1 else c) = Some y"
        using eq unfolding code 1 by code_simp simp
      from IH[OF this] show False by simp
    next
      case 2
      have "walk ''007'' opc 2 (if ''00'' = opc then c + 1 else c) = Some y"
        using eq unfolding code 2 by code_simp simp
      from IH[OF this] show False by simp
    next
      case 3
      have "walk ''007'' opc 0 (if [] = opc then c + 1 else c) = Some y"
        using eq unfolding code 3 by code_simp simp
      from IH[OF this] show False by simp
    next
      case 4
      have "walk ''007'' opc (-2) (if ''0'' = opc then c + 1 else c) = Some y"
        using eq unfolding code 4 by code_simp simp
      from IH[OF this] show False by simp
    next
      case 5
      have "walk ''007'' opc (i + 2) (if [] = opc then c + 1 else c) = Some y"
        using eq 5 unfolding code by (simp add: slice_007_far lower_def)
      from IH[OF this] 5 ev lo show False by simp
    qed
  qed
qed

lemma walk_007_None: "opcode_walk ''007'' opc 0 c = None"
proof (cases "opcode_walk ''007'' opc 0 c")
  case None
  then show ?thesis .
next
  case (Some y)
  from walk_007_cycle[OF this] show ?thesis by simp
qed

text \<open>
  Claim C1 fails on the code. The input \<open>0x007\<close> (odd length) sends the opcode walk
  into an endless loop, for every opcode searched, and so neither \<open>scan_bytecode\<close>
  returns. A byte such as \<open>6g\<close> makes \<open>int\<close> raise ValueError. A PUSH32 cut short
  (\<open>0x7fff\<close>) does end the walk, with its immediate bytes skipped.
\<close>

theorem opcode_walk_odd_length_never_returns:
  "opcode_walk ''007'' opc 0 0 = None \<and>
   cs_scan_bytecode ''0x007'' = None \<and>
   sg_scan_bytecode ''0x007'' = None \<and>
   opcode_walk ''6g'' ''ff'' 0 0 = Some (Inl ValueError) \<and>
   opcode_walk ''7fff'' ''ff'' 0 0 = Some (Inr 0)"
proof (intro conjI)
  show "opcode_walk ''007'' opc 0 0 = None"
    by (rule walk_007_None)
  have code: "strip_0x ''0x007'' = ''007''"
    by (simp add: strip_0x_def startswith_def)
  show "cs_scan_bytecode ''0x007'' = None"
    by (simp add: cs_scan_bytecode_def code CS_PATTERNS_def walk_007_None)
  show "sg_scan_bytecode ''0x007'' = None"
    by (simp add: sg_scan_bytecode_def code SG_PATTERNS_def walk_007_None)
  show "opcode_walk ''6g'' ''ff'' 0 0 = Some (Inl ValueError)"
    by code_simp
  show "opcode_walk ''7fff'' ''ff'' 0 0 = Some (Inr 0)"
    by code_simp
qed

section \<open>The score without a clamp\<close>

text \<open>The score of \<open>safeguard_scan.py\<close> never exceeds 100.\<close>

lemma sg_risk_score_le_100:
  assumes "sg_scan_bytecode h = Some (Inr r)"
  shows "risk_score r \<le> 100"
  using assms
  by (auto simp: sg_scan_bytecode_def Let_def split: if_splits option.splits sum.splits)

text \<open>
  Claim C3 fails on \<open>contract_scanner.py\<close>: its \<open>risk_score\<close> is the plain sum,
  120 for three SELFDESTRUCT bytes, while \<open>safeguard_scan.py\<close> returns
  \<open>min(total_score, 100)\<close> on the same input.
\<close>

theorem contract_scanner_score_exceeds_100:
  "cs_scan_bytecode ''0xffffff'' =
     Some (Inr (Report
       \<lparr>bytecodeSize = 3, riskScore = 120, riskLevel = DENY,
         findings =
           [\<lparr>f_name = ''selfdestruct'', f_severity = CRITICAL,
              f_description = ''Contract can self-destruct, draining all funds'',
              f_occurrences = Some 3\<rparr>],
         knownSelectors = []\<rparr>)) \<and>
   sg_scan_bytecode ''0xffffff'' =
     Some (Inr
       \<lparr>sg_findings =
          [\<lparr>g_name = ''selfdestruct'', g_severity = CRITICAL,
             g_desc = ''Can self-destruct, destroying contract and draining ETH balance'',
             g_count = 3\<rparr>],
        sg_selectors = Some [], risk_score = 100, bytecode_size = Some 3\<rparr>)"
  by code_simp

section \<open>The empty contract\<close>

text \<open>
  Every input whose body is shorter than one byte takes the early return, in both
  scripts.
\<close>

lemma cs_scan_bytecode_empty:
  assumes "length (strip_0x h) < 2"
  shows "cs_scan_bytecode h =
     Some (Inr (FindingList
       [\<lparr>f_name = ''empty_contract'', f_severity = CRITICAL,
          f_description = ''Contract has no bytecode (EOA or destroyed)'',
          f_occurrences = None\<rparr>]))"
    and "h \<noteq> [] \<Longrightarrow>
         cs_main \<lparr>arg_address = None, arg_bytecode = Some h\<rparr> fetched = Some (Inl TypeError)"
  using assms
  by (simp_all add: cs_main_def cs_scan_bytecode_def Let_def get_or_def lower_def
      KNOWN_SAFE_def)

lemma sg_scan_bytecode_empty:
  assumes "length (strip_0x h) < 2"
  shows "sg_scan_bytecode h =
     Some (Inr
       \<lparr>sg_findings =
          [\<lparr>g_name = ''empty_contract'', g_severity = CRITICAL,
             g_desc = ''No bytecode (EOA or destroyed)'', g_count = 1\<rparr>],
        sg_selectors = None, risk_score = 100, bytecode_size = None\<rparr>)"
  using assms by (simp add: sg_scan_bytecode_def Let_def)

text \<open>
  Claim C4 fails on \<open>contract_scanner.py\<close>: on \<open>0x\<close> its \<open>scan_bytecode\<close>
  returns the bare list of the one finding, with no score and no verdict, and \<open>main\<close>
  then raises TypeError, for \<open>--bytecode 0x\<close> and for an address without code. \<open>safeguard_scan.py\<close> returns the finding with the score 100,
  which \<open>scan_address\<close> maps to BLOCK.
\<close>

theorem contract_scanner_empty_returns_bare_list:
  "cs_scan_bytecode ''0x'' =
     Some (Inr (FindingList
       [\<lparr>f_name = ''empty_contract'', f_severity = CRITICAL,
          f_description = ''Contract has no bytecode (EOA or destroyed)'',
          f_occurrences = None\<rparr>])) \<and>
   cs_main \<lparr>arg_address = None, arg_bytecode = Some ''0x''\<rparr> ''0x'' = Some (Inl TypeError) \<and>
   cs_main \<lparr>arg_address = Some ''0x00000000000000000000000000000000000000aa'',
            arg_bytecode = None\<rparr> ''0x'' = Some (Inl TypeError) \<and>
   sg_scan_bytecode ''0x'' =
     Some (Inr
       \<lparr>sg_findings =
          [\<lparr>g_name = ''empty_contract'', g_severity = CRITICAL,
             g_desc = ''No bytecode (EOA or destroyed)'', g_count = 1\<rparr>],
        sg_selectors = None, risk_score = 100, bytecode_size = None\<rparr>) \<and>
   scan_address_verdict 100 = BLOCK"
  by code_simp

section \<open>Letter case of the hex body\<close>

text \<open>
  The opcode walk lower-cases each slice, so it does the same on a body and on the body
  lower-cased; so do the opcode findings of both scripts, and the whole result of
  \<open>safeguard_scan.py\<close> when the input does not start with \<open>0X\<close> (a prefix that
  \<open>startswith("0x")\<close> does not strip).
\<close>

lemma lower_char_idem: "lower_char (lower_char c) = lower_char c"
  by (auto simp: lower_char_def Let_def)

lemma lower_idem: "lower (lower s) = lower s"
  by (simp add: lower_def lower_char_idem)

lemma length_lower: "length (lower s) = length s"
  by (simp add: lower_def)

lemma slice_lower: "slice (lower s) lo hi = lower (slice s lo hi)"
  by (simp add: slice_def lower_def Let_def take_map drop_map)

lemma walk_lower_1:
  assumes "opcode_walk code opc i c = Some y"
  shows "opcode_walk (lower code) opc i c = Some y"
proof (rule opcode_walk.raw_induct
    [where P = "\<lambda>code opc i c y. opcode_walk (lower code) opc i c = Some y", OF _ assms],
    goal_cases)
  case (1 walk code opc i c y)
  note IH = 1(1) and eq = 1(2)
  show ?case
    using eq IH
    by (subst opcode_walk.simps)
      (auto simp: length_lower slice_lower lower_idem Let_def split: if_splits option.splits)
qed

lemma walk_lower_2:
  assumes "opcode_walk code' opc i c = Some y"
  shows "\<forall>code. code' = lower code \<longrightarrow> opcode_walk code opc i c = Some y"
proof (rule opcode_walk.raw_induct
    [where P = "\<lambda>code' opc i c y. \<forall>code. code' = lower code \<longrightarrow> opcode_walk code opc i c = Some y",
      OF _ assms], goal_cases)
  case (1 walk code' opc i c y)
  note IH = 1(1) and eq = 1(2)
  show ?case
  proof (intro allI impI)
    fix code assume c: "code' = lower code"
    show "opcode_walk code opc i c = Some y"
      using eq IH unfolding c
      by (subst opcode_walk.simps)
        (auto simp: length_lower slice_lower lower_idem Let_def split: if_splits option.splits)
  qed
qed

lemma opcode_walk_lower: "opcode_walk (lower code) opc i c = opcode_walk code opc i c"
proof (cases "opcode_walk code opc i c")
  case (Some y)
  then show ?thesis by (simp add: walk_lower_1)
next
  case None
  show ?thesis
  proof (cases "opcode_walk (lower code) opc i c")
    case None
    with \<open>opcode_walk code opc i c = None\<close> show ?thesis by simp
  next
    case (Some y)
    from walk_lower_2[OF this] have "opcode_walk code opc i c = Some y" by simp
    with None show ?thesis by simp
  qed
qed


lemma cs_scan_patterns_lower:
  "cs_scan_patterns (lower code) ps fs = cs_scan_patterns code ps fs"
  by (induction ps arbitrary: fs)
    (simp_all add: opcode_walk_lower split: option.splits sum.splits)

lemma sg_scan_patterns_lower:
  "sg_scan_patterns (lower code) ps fs t = sg_scan_patterns code ps fs t"
  by (induction ps arbitrary: fs t)
    (simp_all add: opcode_walk_lower split: option.splits sum.splits)

lemma sg_scan_selectors_lower:
  "sg_scan_selectors (lower code) sels = sg_scan_selectors code sels"
  by (induction sels) (auto simp: lower_idem)

lemma lower_char_0: "lower_char c = CHR ''0'' \<longleftrightarrow> c = CHR ''0''"
  by (auto simp: lower_char_def Let_def char_of_eq_iff take_bit_eq_mod)

lemma of_char_88: "(of_char c :: nat) = 88 \<Longrightarrow> c = CHR ''X''"
proof -
  assume "of_char c = (88::nat)"
  then have "(of_char c :: nat) = of_char (CHR ''X'')"
    by simp
  then show ?thesis
    by (simp only: of_char_eq_iff)
qed

lemma lower_char_x: "lower_char c = CHR ''x'' \<longleftrightarrow> c = CHR ''x'' \<or> c = CHR ''X''"
proof
  assume "lower_char c = CHR ''x''"
  then show "c = CHR ''x'' \<or> c = CHR ''X''"
    by (auto simp: lower_char_def Let_def char_of_eq_iff take_bit_eq_mod
        split: if_splits intro: of_char_88)
next
  assume "c = CHR ''x'' \<or> c = CHR ''X''"
  then show "lower_char c = CHR ''x''"
    by (auto simp: lower_char_def char_of_eq_iff)
qed

lemma strip_0x_lower:
  assumes "\<not> startswith h ''0X''"
  shows "strip_0x (lower h) = lower (strip_0x h)"
proof (cases h)
  case Nil
  then show ?thesis by (simp add: strip_0x_def startswith_def lower_def)
next
  case (Cons a t)
  show ?thesis
  proof (cases t)
    case Nil
    with Cons show ?thesis by (simp add: strip_0x_def startswith_def lower_def)
  next
    case (Cons b u)
    with \<open>h = a # t\<close> assms show ?thesis
      by (auto simp: strip_0x_def startswith_def lower_def lower_char_0 lower_char_x drop_map)
  qed
qed

lemma sg_scan_bytecode_lower:
  assumes "\<not> startswith h ''0X''"
  shows "sg_scan_bytecode (lower h) = sg_scan_bytecode h"
  by (auto simp: sg_scan_bytecode_def strip_0x_lower[OF assms] length_lower
      sg_scan_patterns_lower sg_scan_selectors_lower Let_def
      split: option.splits sum.splits prod.splits)

text \<open>
  Claim C10 fails on \<open>contract_scanner.py\<close>: it searches the selectors in
  \<open>code\<close> as given, so the selector of \<open>approve\<close> is found in \<open>0x095ea7b3\<close>
  but not in \<open>0x095EA7B3\<close>. \<open>safeguard_scan.py\<close> searches \<open>code.lower()\<close> and
  finds it in both.
\<close>

theorem contract_scanner_selectors_case_sensitive:
  "cs_scan_bytecode ''0x095EA7B3'' =
     Some (Inr (Report
       \<lparr>bytecodeSize = 4, riskScore = 0, riskLevel = APPROVE, findings = [],
         knownSelectors = []\<rparr>)) \<and>
   cs_scan_bytecode (lower ''0x095EA7B3'') =
     Some (Inr (Report
       \<lparr>bytecodeSize = 4, riskScore = 0, riskLevel = APPROVE, findings = [],
         knownSelectors =
           [\<lparr>sel_name = ''approve(address,uint256)'', sel_risk = MEDIUM,
              sel_note = ''Approval -- check for unlimited approvals'',
              sel_selector = ''0x095ea7b3''\<rparr>]\<rparr>)) \<and>
   sg_scan_bytecode ''0x095EA7B3'' = sg_scan_bytecode (lower ''0x095EA7B3'') \<and>
   sg_scan_bytecode ''0x095EA7B3'' =
     Some (Inr
       \<lparr>sg_findings = [],
        sg_selectors =
          Some [\<lparr>sel_name = ''approve(address,uint256)'', sel_risk = MEDIUM,
                  sel_note = ''Check for unlimited approvals (type(uint256).max)'',
                  sel_selector = ''0x095ea7b3''\<rparr>],
        risk_score = 0, bytecode_size = Some 4\<rparr>)"
  by code_simp

section \<open>Deny-lists\<close>

text \<open>
  Claim C5 as stated fails for skills. \<open>eval_skill\<close> strips the author and the
  source but not the entries of the deny-list: the author \<open>" mallory "\<close> is on the
  deny-list \<open>[" mallory "]\<close> as written, yet it is looked up as \<open>"mallory"\<close>,
  not found, and the skill is approved with the reason "OK".
\<close>

theorem unstripped_deny_entry_not_matched:
  "get_or (sk_author \<lparr>sk_author = Some '' mallory '', sk_source = None,
                      sk_requested_permissions = None\<rparr>) []
     \<in> set (get_list (denylist
          \<lparr>allowlist = None,
            denylist = Some \<lparr>addresses = None, skill_authors = Some ['' mallory ''],
                             skill_sources = None\<rparr>,
            risky_permissions = None, block_new_skills = None, mainnet_allowed = None,
            mainnet_max_usdc = None, max_single_usdc = None\<rparr>) skill_authors) \<and>
   eval_skill
     \<lparr>sk_author = Some '' mallory '', sk_source = None, sk_requested_permissions = None\<rparr>
     \<lparr>allowlist = None,
       denylist = Some \<lparr>addresses = None, skill_authors = Some ['' mallory ''],
                        skill_sources = None\<rparr>,
       risky_permissions = None, block_new_skills = None, mainnet_allowed = None,
       mainnet_max_usdc = None, max_single_usdc = None\<rparr>
     = (APPROVE, [Text ''OK''])"
  by code_simp

text \<open>
  Claim C5, amended. A payment whose recipient, lower-cased, is among the lower-cased
  addresses of the deny-list is denied with the one reason "Recipient denylisted",
  whatever its amount, its chain and the allow-list. A skill whose author or source, with
  its surrounding whitespace stripped (absent is empty), equals an entry of the deny-list
  as written is denied with the one reason "Denied author/source"; no other check
  contributes.
\<close>

theorem deny_list_short_circuit:
  "(lower (get_or (tx_to tx) []) \<in> set (map lower (get_list (denylist policy) addresses)) \<longrightarrow>
      eval_payment tx policy = (DENY, [Text ''Recipient denylisted''])) \<and>
   (strip (get_or (sk_author skill) []) \<in> set (get_list (denylist policy) skill_authors) \<or>
    strip (get_or (sk_source skill) []) \<in> set (get_list (denylist policy) skill_sources) \<longrightarrow>
      eval_skill skill policy = (DENY, [Text ''Denied author/source'']))"
  by (simp add: eval_payment_def eval_skill_def Let_def)

theorem deny_list_short_circuit_witness:
  "lower (get_or (tx_to \<lparr>tx_chain = Some ''base-sepolia'', tx_amount = Some 0.01,
                         tx_to = Some ''0xDEAD''\<rparr>) [])
     \<in> set (map lower (get_list (denylist
          \<lparr>allowlist = Some \<lparr>addresses = Some [''0xDEAD''], skill_authors = Some [''mallory''],
                              skill_sources = None\<rparr>,
            denylist = Some \<lparr>addresses = Some [''0xdead''], skill_authors = Some [''mallory''],
                             skill_sources = None\<rparr>,
            risky_permissions = None, block_new_skills = None, mainnet_allowed = None,
            mainnet_max_usdc = None, max_single_usdc = Some 100\<rparr>) addresses)) \<and>
   eval_payment
     \<lparr>tx_chain = Some ''base-sepolia'', tx_amount = Some 0.01, tx_to = Some ''0xDEAD''\<rparr>
     \<lparr>allowlist = Some \<lparr>addresses = Some [''0xDEAD''], skill_authors = Some [''mallory''],
                         skill_sources = None\<rparr>,
       denylist = Some \<lparr>addresses = Some [''0xdead''], skill_authors = Some [''mallory''],
                        skill_sources = None\<rparr>,
       risky_permissions = None, block_new_skills = None, mainnet_allowed = None,
       mainnet_max_usdc = None, max_single_usdc = Some 100\<rparr>
     = (DENY, [Text ''Recipient denylisted'']) \<and>
   strip (get_or (sk_author \<lparr>sk_author = Some '' mallory '', sk_source = None,
                             sk_requested_permissions = None\<rparr>) [])
     \<in> set (get_list (denylist
          \<lparr>allowlist = Some \<lparr>addresses = Some [''0xDEAD''], skill_authors = Some [''mallory''],
                              skill_sources = None\<rparr>,
            denylist = Some \<lparr>addresses = Some [''0xdead''], skill_authors = Some [''mallory''],
                             skill_sources = None\<rparr>,
            risky_permissions = None, block_new_skills = None, mainnet_allowed = None,
            mainnet_max_usdc = None, max_single_usdc = Some 100\<rparr>) skill_authors) \<and>
   eval_skill
     \<lparr>sk_author = Some '' mallory '', sk_source = None, sk_requested_permissions = None\<rparr>
     \<lparr>allowlist = Some \<lparr>addresses = Some [''0xDEAD''], skill_authors = Some [''mallory''],
                         skill_sources = None\<rparr>,
       denylist = Some \<lparr>addresses = Some [''0xdead''], skill_authors = Some [''mallory''],
                        skill_sources = None\<rparr>,
       risky_permissions = None, block_new_skills = None, mainnet_allowed = None,
       mainnet_max_usdc = None, max_single_usdc = Some 100\<rparr>
     = (DENY, [Text ''Denied author/source''])"
proof -
  let ?tx = "\<lparr>tx_chain = Some ''base-sepolia'', tx_amount = Some 0.01, tx_to = Some ''0xDEAD''\<rparr>"
  let ?sk = "\<lparr>sk_author = Some '' mallory '', sk_source = None, sk_requested_permissions = None\<rparr>"
  let ?pol = "\<lparr>allowlist = Some \<lparr>addresses = Some [''0xDEAD''], skill_authors = Some [''mallory''],
                                  skill_sources = None\<rparr>,
                denylist = Some \<lparr>addresses = Some [''0xdead''], skill_authors = Some [''mallory''],
                                 skill_sources = None\<rparr>,
                risky_permissions = None, block_new_skills = None, mainnet_allowed = None,
                mainnet_max_usdc = None, max_single_usdc = Some 100\<rparr>"
  have h1: "lower (get_or (tx_to ?tx) []) \<in> set (map lower (get_list (denylist ?pol) addresses))"
    by code_simp
  have h2: "strip (get_or (sk_author ?sk) []) \<in> set (get_list (denylist ?pol) skill_authors)"
    by code_simp
  note inst = deny_list_short_circuit[of ?tx ?pol ?sk]
  from inst h1 have r1: "eval_payment ?tx ?pol = (DENY, [Text ''Recipient denylisted''])"
    by blast
  from inst h2 have r2: "eval_skill ?sk ?pol = (DENY, [Text ''Denied author/source''])"
    by blast
  from h1 r1 h2 r2 show ?thesis
    by blast
qed

section \<open>The reason list\<close>

text \<open>
  When no DENY gate fires, the returned list is the reasons of the checks that fired, in
  the order of the checks, or "OK" when none fired.
\<close>

lemma payment_reasons_kept:
  assumes "lower (get_or (tx_to tx) []) \<notin> set (map lower (get_list (denylist policy) addresses))"
      and "lower (get_or (tx_chain tx) []) = ''mainnet'' \<longrightarrow> get_or (mainnet_allowed policy) False"
  shows "snd (eval_payment tx policy) =
      (let raised =
         (if get_list (allowlist policy) addresses \<noteq> [] \<and>
             lower (get_or (tx_to tx) []) \<notin> set (map lower (get_list (allowlist policy) addresses))
          then [Text ''Recipient not in allowlist''] else []) @
         (if lower (get_or (tx_chain tx) []) = ''mainnet'' \<and>
             get_or (tx_amount tx) 0 > get_or (mainnet_max_usdc policy) 0
          then [Text ''Exceeds mainnet threshold''] else []) @
         (if get_or (max_single_usdc policy) 0 \<noteq> 0 \<and>
             get_or (tx_amount tx) 0 > get_or (max_single_usdc policy) 0
          then [Text ''Exceeds single-tx limit''] else [])
       in if raised = [] then [Text ''OK''] else raised)"
proof (cases "lower (get_or (tx_chain tx) []) = ''mainnet''")
  case True
  with assms(2) have "get_or (mainnet_allowed policy) False"
    by simp
  with True assms(1) show ?thesis
    by (simp add: eval_payment_def Let_def)
next
  case False
  with assms(1) show ?thesis
    by (simp add: eval_payment_def Let_def)
qed

lemma skill_reasons_kept:
  assumes "strip (get_or (sk_author skill) []) \<notin> set (get_list (denylist policy) skill_authors)"
      and "strip (get_or (sk_source skill) []) \<notin> set (get_list (denylist policy) skill_sources)"
  shows "snd (eval_skill skill policy) =
      (let raised =
         (if strip (get_or (sk_author skill) []) \<noteq> [] \<and>
             strip (get_or (sk_author skill) []) \<notin> set (get_list (allowlist policy) skill_authors) \<and>
             get_list (allowlist policy) skill_authors \<noteq> []
          then [Text ''Author not in allowlist''] else []) @
         (if strip (get_or (sk_source skill) []) \<noteq> [] \<and>
             strip (get_or (sk_source skill) []) \<notin> set (get_list (allowlist policy) skill_sources) \<and>
             get_list (allowlist policy) skill_sources \<noteq> []
          then [Text ''Source not in allowlist''] else []) @
         (if filter (\<lambda>x. x \<in> set (get_or (risky_permissions policy) []))
                    (get_or (sk_requested_permissions skill) []) \<noteq> []
          then [Risky_permissions (sorted_strs (remdups
                  (filter (\<lambda>x. x \<in> set (get_or (risky_permissions policy) []))
                          (get_or (sk_requested_permissions skill) []))))] else []) @
         (if get_or (block_new_skills policy) False
          then [Text ''Block new skills enabled''] else [])
       in if raised = [] then [Text ''OK''] else raised)"
  using assms by (simp add: eval_skill_def Let_def)

text \<open>
  Claim C6 as stated fails on \<open>eval_payment\<close>. The recipient misses the allow-list,
  so the reason "Recipient not in allowlist" is appended; the mainnet gate then returns a
  fresh list holding "Mainnet disabled" alone. With mainnet allowed, the same payment
  keeps the reason, in insertion order.
\<close>

theorem mainnet_deny_drops_allowlist_reason:
  "eval_payment
     \<lparr>tx_chain = Some ''mainnet'', tx_amount = Some 1, tx_to = Some ''0xdef''\<rparr>
     \<lparr>allowlist = Some \<lparr>addresses = Some [''0xabc''], skill_authors = None,
                         skill_sources = None\<rparr>,
       denylist = None, risky_permissions = None, block_new_skills = None,
       mainnet_allowed = Some False, mainnet_max_usdc = None, max_single_usdc = None\<rparr>
     = (DENY, [Text ''Mainnet disabled'']) \<and>
   eval_payment
     \<lparr>tx_chain = Some ''mainnet'', tx_amount = Some 1, tx_to = Some ''0xdef''\<rparr>
     \<lparr>allowlist = Some \<lparr>addresses = Some [''0xabc''], skill_authors = None,
                         skill_sources = None\<rparr>,
       denylist = None, risky_permissions = None, block_new_skills = None,
       mainnet_allowed = Some True, mainnet_max_usdc = None, max_single_usdc = None\<rparr>
     = (REVIEW, [Text ''Recipient not in allowlist'', Text ''Exceeds mainnet threshold''])"
  by code_simp

text \<open>
  Claim C6, amended. In an evaluation that no DENY gate ends (the recipient, author and
  source are not deny-listed, and mainnet is allowed when the chain is mainnet), the
  returned reason list is exactly the reasons raised by the checks that fired, in the
  order of the checks, or "OK" alone when none fired. An evaluation that the mainnet gate
  ends returns DENY with "Mainnet disabled" alone.
\<close>

theorem reasons_kept_in_order_without_deny_gate:
  "(lower (get_or (tx_to tx) []) \<notin> set (map lower (get_list (denylist policy) addresses)) \<longrightarrow>
    (lower (get_or (tx_chain tx) []) = ''mainnet'' \<longrightarrow> get_or (mainnet_allowed policy) False) \<longrightarrow>
    snd (eval_payment tx policy) =
      (let raised =
         (if get_list (allowlist policy) addresses \<noteq> [] \<and>
             lower (get_or (tx_to tx) []) \<notin> set (map lower (get_list (allowlist policy) addresses))
          then [Text ''Recipient not in allowlist''] else []) @
         (if lower (get_or (tx_chain tx) []) = ''mainnet'' \<and>
             get_or (tx_amount tx) 0 > get_or (mainnet_max_usdc policy) 0
          then [Text ''Exceeds mainnet threshold''] else []) @
         (if get_or (max_single_usdc policy) 0 \<noteq> 0 \<and>
             get_or (tx_amount tx) 0 > get_or (max_single_usdc policy) 0
          then [Text ''Exceeds single-tx limit''] else [])
       in if raised = [] then [Text ''OK''] else raised)) \<and>
   (strip (get_or (sk_author skill) []) \<notin> set (get_list (denylist policy) skill_authors) \<longrightarrow>
    strip (get_or (sk_source skill) []) \<notin> set (get_list (denylist policy) skill_sources) \<longrightarrow>
    snd (eval_skill skill policy) =
      (let raised =
         (if strip (get_or (sk_author skill) []) \<noteq> [] \<and>
             strip (get_or (sk_author skill) []) \<notin> set (get_list (allowlist policy) skill_authors) \<and>
             get_list (allowlist policy) skill_authors \<noteq> []
          then [Text ''Author not in allowlist''] else []) @
         (if strip (get_or (sk_source skill) []) \<noteq> [] \<and>
             strip (get_or (sk_source skill) []) \<notin> set (get_list (allowlist policy) skill_sources) \<and>
             get_list (allowlist policy) skill_sources \<noteq> []
          then [Text ''Source not in allowlist''] else []) @
         (if filter (\<lambda>x. x \<in> set (get_or (risky_permissions policy) []))
                    (get_or (sk_requested_permissions skill) []) \<noteq> []
          then [Risky_permissions (sorted_strs (remdups
                  (filter (\<lambda>x. x \<in> set (get_or (risky_permissions policy) []))
                          (get_or (sk_requested_permissions skill) []))))] else []) @
         (if get_or (block_new_skills policy) False
          then [Text ''Block new skills enabled''] else [])
       in if raised = [] then [Text ''OK''] else raised)) \<and>
   (lower (get_or (tx_to tx) []) \<notin> set (map lower (get_list (denylist policy) addresses)) \<longrightarrow>
    lower (get_or (tx_chain tx) []) = ''mainnet'' \<longrightarrow>
    get_or (mainnet_allowed policy) False = False \<longrightarrow>
    eval_payment tx policy = (DENY, [Text ''Mainnet disabled'']))"
proof (intro conjI impI)
  assume "lower (get_or (tx_to tx) []) \<notin> set (map lower (get_list (denylist policy) addresses))"
    and "lower (get_or (tx_chain tx) []) = ''mainnet''"
    and "get_or (mainnet_allowed policy) False = False"
  then show "eval_payment tx policy = (DENY, [Text ''Mainnet disabled''])"
    by (simp add: eval_payment_def Let_def)
qed (rule payment_reasons_kept skill_reasons_kept; assumption)+

theorem reasons_kept_in_order_without_deny_gate_witness:
  "lower (get_or (tx_chain \<lparr>tx_chain = Some ''Mainnet'', tx_amount = Some 500,
                           tx_to = Some ''0xDEF''\<rparr>) []) = ''mainnet'' \<and>
   snd (eval_payment
     \<lparr>tx_chain = Some ''Mainnet'', tx_amount = Some 500, tx_to = Some ''0xDEF''\<rparr>
     \<lparr>allowlist = Some \<lparr>addresses = Some [''0xabc''], skill_authors = Some [''alice''],
                         skill_sources = Some [''clawhub'']\<rparr>,
       denylist = Some \<lparr>addresses = Some [''0xdead''], skill_authors = Some [''mallory''],
                        skill_sources = None\<rparr>,
       risky_permissions = Some [''shell'', ''network''], block_new_skills = Some True,
       mainnet_allowed = Some True, mainnet_max_usdc = Some 100, max_single_usdc = Some 50\<rparr>)
     = [Text ''Recipient not in allowlist'', Text ''Exceeds mainnet threshold'',
        Text ''Exceeds single-tx limit''] \<and>
   snd (eval_skill
     \<lparr>sk_author = Some ''bob'', sk_source = Some ''github'',
       sk_requested_permissions = Some [''network'', ''files'', ''shell'']\<rparr>
     \<lparr>allowlist = Some \<lparr>addresses = Some [''0xabc''], skill_authors = Some [''alice''],
                         skill_sources = Some [''clawhub'']\<rparr>,
       denylist = Some \<lparr>addresses = Some [''0xdead''], skill_authors = Some [''mallory''],
                        skill_sources = None\<rparr>,
       risky_permissions = Some [''shell'', ''network''], block_new_skills = Some True,
       mainnet_allowed = Some True, mainnet_max_usdc = Some 100, max_single_usdc = Some 50\<rparr>)
     = [Text ''Author not in allowlist'', Text ''Source not in allowlist'',
        Risky_permissions [''network'', ''shell''], Text ''Block new skills enabled''] \<and>
   eval_payment
     \<lparr>tx_chain = Some ''Mainnet'', tx_amount = Some 500, tx_to = Some ''0xDEF''\<rparr>
     \<lparr>allowlist = Some \<lparr>addresses = Some [''0xabc''], skill_authors = Some [''alice''],
                         skill_sources = Some [''clawhub'']\<rparr>,
       denylist = Some \<lparr>addresses = Some [''0xdead''], skill_authors = Some [''mallory''],
                        skill_sources = None\<rparr>,
       risky_permissions = Some [''shell'', ''network''], block_new_skills = Some True,
       mainnet_allowed = None, mainnet_max_usdc = Some 100, max_single_usdc = Some 50\<rparr>
     = (DENY, [Text ''Mainnet disabled''])"
proof -
  let ?tx = "\<lparr>tx_chain = Some ''Mainnet'', tx_amount = Some 500, tx_to = Some ''0xDEF''\<rparr>"
  let ?sk = "\<lparr>sk_author = Some ''bob'', sk_source = Some ''github'',
               sk_requested_permissions = Some [''network'', ''files'', ''shell'']\<rparr>"
  let ?pol = "\<lparr>allowlist = Some \<lparr>addresses = Some [''0xabc''], skill_authors = Some [''alice''],
                                  skill_sources = Some [''clawhub'']\<rparr>,
                denylist = Some \<lparr>addresses = Some [''0xdead''], skill_authors = Some [''mallory''],
                                 skill_sources = None\<rparr>,
                risky_permissions = Some [''shell'', ''network''], block_new_skills = Some True,
                mainnet_allowed = Some True, mainnet_max_usdc = Some 100,
                max_single_usdc = Some 50\<rparr>"
  let ?pol' = "\<lparr>allowlist = Some \<lparr>addresses = Some [''0xabc''], skill_authors = Some [''alice''],
                                   skill_sources = Some [''clawhub'']\<rparr>,
                 denylist = Some \<lparr>addresses = Some [''0xdead''], skill_authors = Some [''mallory''],
                                  skill_sources = None\<rparr>,
                 risky_permissions = Some [''shell'', ''network''], block_new_skills = Some True,
                 mainnet_allowed = None, mainnet_max_usdc = Some 100,
                 max_single_usdc = Some 50\<rparr>"
  have ch: "lower (get_or (tx_chain ?tx) []) = ''mainnet''"
    by code_simp
  have dn: "lower (get_or (tx_to ?tx) []) \<notin> set (map lower (get_list (denylist ?pol) addresses))"
    and dn': "lower (get_or (tx_to ?tx) []) \<notin> set (map lower (get_list (denylist ?pol') addresses))"
    by code_simp+
  have ma: "lower (get_or (tx_chain ?tx) []) = ''mainnet'' \<longrightarrow> get_or (mainnet_allowed ?pol) False"
    by (simp add: get_or_def)
  have mo: "get_or (mainnet_allowed ?pol') False = False"
    by (simp add: get_or_def)
  have da: "strip (get_or (sk_author ?sk) []) \<notin> set (get_list (denylist ?pol) skill_authors)"
    and ds: "strip (get_or (sk_source ?sk) []) \<notin> set (get_list (denylist ?pol) skill_sources)"
    by code_simp+
  note inst = reasons_kept_in_order_without_deny_gate[of ?tx ?pol ?sk]
  note inst' = reasons_kept_in_order_without_deny_gate[of ?tx ?pol' ?sk]
  from inst[THEN conjunct1, THEN mp, OF dn, THEN mp, OF ma]
  have r1: "snd (eval_payment ?tx ?pol) =
      [Text ''Recipient not in allowlist'', Text ''Exceeds mainnet threshold'',
       Text ''Exceeds single-tx limit'']"
    by code_simp
  from inst[THEN conjunct2, THEN conjunct1, rule_format, OF da ds]
  have r2: "snd (eval_skill ?sk ?pol) =
      [Text ''Author not in allowlist'', Text ''Source not in allowlist'',
       Risky_permissions [''network'', ''shell''], Text ''Block new skills enabled'']"
    by code_simp
  from inst'[THEN conjunct2, THEN conjunct2, rule_format, OF dn' ch mo]
  have r3: "eval_payment ?tx ?pol' = (DENY, [Text ''Mainnet disabled''])" .
  from ch r1 r2 r3 show ?thesis
    by blast
qed

section \<open>The author allow-list\<close>




section \<open>Missing policy fields\<close>

text \<open>
  Claim C9 as stated fails: the code has no ConfigError. Under a policy with every
  field absent \<open>eval_payment\<close> approves a payment of any amount, and so it does when
  \<open>max_single_usdc\<close> is 0; \<open>evaluate_transaction\<close> approves under an empty policy
  as well.
\<close>

theorem incomplete_policy_approves:
  "eval_payment
     \<lparr>tx_chain = Some ''base-sepolia'', tx_amount = Some 1000000, tx_to = Some ''0xabc''\<rparr>
     \<lparr>allowlist = None, denylist = None, risky_permissions = None, block_new_skills = None,
       mainnet_allowed = None, mainnet_max_usdc = None, max_single_usdc = None\<rparr>
     = (APPROVE, [Text ''OK'']) \<and>
   eval_payment
     \<lparr>tx_chain = Some ''base-sepolia'', tx_amount = Some 1000000, tx_to = Some ''0xabc''\<rparr>
     \<lparr>allowlist = None, denylist = None, risky_permissions = None, block_new_skills = None,
       mainnet_allowed = None, mainnet_max_usdc = None, max_single_usdc = Some 0\<rparr>
     = (APPROVE, [Text ''OK'']) \<and>
   evaluate_transaction (+)
     \<lparr>amount_usdc = Some 1000000, category = None, recipient = Some ''bob'', date = Some 0\<rparr>
     \<lparr>deny_recipients = None, sp_max_single_usdc = None, category_limits_usdc = None,
       daily_limit_usdc = None, known_recipients = None\<rparr>
     []
     = Inr (APPROVE, [])"
  by code_simp

text \<open>
  Claim C9, amended. A missing policy field takes the default of its \<open>.get\<close> and the
  evaluation goes on. When \<open>max_single_usdc\<close> is missing or zero, \<open>eval_payment\<close>
  skips the single-transaction check: "Exceeds single-tx limit" is never a reason, and a
  payment off mainnet, to a recipient that is not denied, under an empty allow-list, is
  approved with the reason "OK" whatever its amount. In \<open>evaluate_transaction\<close> a
  missing \<open>max_single_usdc\<close> never gives the reason \<open>over_single_limit\<close>,
  whatever the float addition.
\<close>

theorem missing_max_single_skips_limit_check:
  "(max_single_usdc policy = None \<or> max_single_usdc policy = Some 0 \<longrightarrow>
      Text ''Exceeds single-tx limit'' \<notin> set (snd (eval_payment tx policy))) \<and>
   (max_single_usdc policy = None \<or> max_single_usdc policy = Some 0 \<longrightarrow>
      lower (get_or (tx_chain tx) []) \<noteq> ''mainnet'' \<longrightarrow>
      get_list (allowlist policy) addresses = [] \<longrightarrow>
      lower (get_or (tx_to tx) []) \<notin> set (map lower (get_list (denylist policy) addresses)) \<longrightarrow>
      eval_payment tx policy = (APPROVE, [Text ''OK''])) \<and>
   (sp_max_single_usdc sp = None \<longrightarrow>
      evaluate_transaction float_add stx sp ds = Inr (d, rs) \<longrightarrow>
      ''over_single_limit'' \<notin> set rs)"
proof (intro conjI impI)
  assume "max_single_usdc policy = None \<or> max_single_usdc policy = Some 0"
  then have z: "get_or (max_single_usdc policy) 0 = 0"
    by (auto simp: get_or_def)
  show "Text ''Exceeds single-tx limit'' \<notin> set (snd (eval_payment tx policy))"
    by (simp add: eval_payment_def Let_def z)
  assume "lower (get_or (tx_chain tx) []) \<noteq> ''mainnet''"
    and "get_list (allowlist policy) addresses = []"
    and "lower (get_or (tx_to tx) []) \<notin> set (map lower (get_list (denylist policy) addresses))"
  then show "eval_payment tx policy = (APPROVE, [Text ''OK''])"
    by (simp add: eval_payment_def Let_def z)
next
  assume "sp_max_single_usdc sp = None"
    and "evaluate_transaction float_add stx sp ds = Inr (d, rs)"
  then show "''over_single_limit'' \<notin> set rs"
    by (auto simp: evaluate_transaction_def Let_def split: option.splits if_splits)
qed

theorem missing_max_single_skips_limit_check_witness:
  "max_single_usdc
     \<lparr>allowlist = None,
       denylist = Some \<lparr>addresses = Some [''0xdead''], skill_authors = None,
                        skill_sources = None\<rparr>,
       risky_permissions = None, block_new_skills = None, mainnet_allowed = Some True,
       mainnet_max_usdc = Some 50, max_single_usdc = None\<rparr> = None \<and>
   eval_payment
     \<lparr>tx_chain = Some ''base-sepolia'', tx_amount = Some 1000000, tx_to = Some ''0xabc''\<rparr>
     \<lparr>allowlist = None,
       denylist = Some \<lparr>addresses = Some [''0xdead''], skill_authors = None,
                        skill_sources = None\<rparr>,
       risky_permissions = None, block_new_skills = None, mainnet_allowed = Some True,
       mainnet_max_usdc = Some 50, max_single_usdc = None\<rparr>
     = (APPROVE, [Text ''OK'']) \<and>
   evaluate_transaction (+)
     \<lparr>amount_usdc = Some 1000000, category = Some ''infra'', recipient = Some ''bob'',
       date = Some 0\<rparr>
     \<lparr>deny_recipients = Some [''mallory''], sp_max_single_usdc = None,
       category_limits_usdc = None, daily_limit_usdc = Some 100,
       known_recipients = Some [''bob'']\<rparr>
     [(0, 60)]
     = Inr (REVIEW, [''over_daily_limit'']) \<and>
   ''over_single_limit'' \<notin> set [''over_daily_limit'']"
proof -
  let ?tx = "\<lparr>tx_chain = Some ''base-sepolia'', tx_amount = Some 1000000,
               tx_to = Some ''0xabc''\<rparr>"
  let ?pol = "\<lparr>allowlist = None,
                denylist = Some \<lparr>addresses = Some [''0xdead''], skill_authors = None,
                                 skill_sources = None\<rparr>,
                risky_permissions = None, block_new_skills = None, mainnet_allowed = Some True,
                mainnet_max_usdc = Some 50, max_single_usdc = None\<rparr>"
  let ?stx = "\<lparr>amount_usdc = Some 1000000, category = Some ''infra'', recipient = Some ''bob'',
                date = Some 0\<rparr>"
  let ?sp = "\<lparr>deny_recipients = Some [''mallory''], sp_max_single_usdc = None,
               category_limits_usdc = None, daily_limit_usdc = Some 100,
               known_recipients = Some [''bob'']\<rparr>"
  note inst = missing_max_single_skips_limit_check
    [of ?pol ?tx ?sp "(+)" ?stx "[(0, 60)]" REVIEW "[''over_daily_limit'']"]
  have m: "max_single_usdc ?pol = None"
    by simp
  have c: "lower (get_or (tx_chain ?tx) []) \<noteq> ''mainnet''"
    by code_simp
  have al: "get_list (allowlist ?pol) addresses = []"
    by (simp add: get_list_def)
  have dn: "lower (get_or (tx_to ?tx) []) \<notin> set (map lower (get_list (denylist ?pol) addresses))"
    by code_simp
  have sm: "sp_max_single_usdc ?sp = None"
    by simp
  have ev: "evaluate_transaction (+) ?stx ?sp [(0, 60)] = Inr (REVIEW, [''over_daily_limit''])"
    by (simp add: evaluate_transaction_def get_or_def)
  from inst m c al dn have r: "eval_payment ?tx ?pol = (APPROVE, [Text ''OK''])"
    by blast
  from inst sm ev have n: "''over_single_limit'' \<notin> set [''over_daily_limit'']"
    by blast
  from m r ev n show ?thesis
    by blast
qed


end
